theory Spec2Isabelle
  imports Main
begin

section \<open>Byte slices\<close>

text \<open>
  A Go \<^verbatim>\<open>[]byte\<close> is either \<^verbatim>\<open>nil\<close> or a sequence of bytes; the code below tests
  \<^verbatim>\<open>!= nil\<close>, so the two are kept apart: \<open>None\<close> is the nil slice, \<open>Some s\<close> a
  non-nil slice with contents \<open>s\<close>. A byte is a \<^typ>\<open>char\<close> (eight bits), a Go
  \<^verbatim>\<open>string\<close> a \<^typ>\<open>string\<close>.
\<close>

type_synonym bytes = "string option"

definition len :: "bytes \<Rightarrow> nat" where
  "len b = (case b of None \<Rightarrow> 0 | Some s \<Rightarrow> length s)"

definition contents :: "bytes \<Rightarrow> string" where
  "contents b = (case b of None \<Rightarrow> [] | Some s \<Rightarrow> s)"

text \<open>\<^verbatim>\<open>bytes.Equal\<close>: same length and same bytes; a nil slice equals an empty one.\<close>

definition bytes_Equal :: "bytes \<Rightarrow> bytes \<Rightarrow> bool" where
  "bytes_Equal a b = (contents a = contents b)"

text \<open>
  The builtin \<^verbatim>\<open>copy(dst, src)\<close> on plain lists: the first \<open>min (length dst) (length src)\<close>
  bytes of \<open>dst\<close> are overwritten, the rest of \<open>dst\<close> stays.
\<close>

definition copy :: "string \<Rightarrow> string \<Rightarrow> string" where
  "copy dst src = take (length dst) src @ drop (length src) dst"

section \<open>Encodings of the standard library\<close>

subsection \<open>Base64 (\<^verbatim>\<open>base64.StdEncoding\<close>)\<close>

text \<open>
  The standard alphabet with padding. \<open>encode6\<close> is the alphabet as a function of the
  six-bit value, \<open>decode6\<close> its inverse on the 64 characters of the alphabet.
\<close>

definition encode6 :: "nat \<Rightarrow> char" where
  "encode6 n =
     (if n < 26 then char_of (65 + n)
      else if n < 52 then char_of (97 + (n - 26))
      else if n < 62 then char_of (48 + (n - 52))
      else if n = 62 then CHR ''+'' else CHR ''/'')"

definition decode6 :: "char \<Rightarrow> nat option" where
  "decode6 c =
     (let k = (of_char c :: nat) in
      if 65 \<le> k \<and> k \<le> 90 then Some (k - 65)
      else if 97 \<le> k \<and> k \<le> 122 then Some (k - 97 + 26)
      else if 48 \<le> k \<and> k \<le> 57 then Some (k - 48 + 52)
      else if c = CHR ''+'' then Some 62
      else if c = CHR ''/'' then Some 63
      else None)"

text \<open>
  \<^verbatim>\<open>EncodeToString\<close>: three bytes become four characters; a last group of one or two
  bytes is padded with \<^verbatim>\<open>=\<close>.
\<close>

fun EncodeToString :: "string \<Rightarrow> string" where
  "EncodeToString [] = []"
| "EncodeToString [a] =
     (let x = (of_char a :: nat) in
      [encode6 (x div 4), encode6 ((x mod 4) * 16), CHR ''='', CHR ''=''])"
| "EncodeToString [a, b] =
     (let x = (of_char a :: nat); y = (of_char b :: nat) in
      [encode6 (x div 4), encode6 ((x mod 4) * 16 + y div 16),
       encode6 ((y mod 16) * 4), CHR ''=''])"
| "EncodeToString (a # b # c # rest) =
     (let x = (of_char a :: nat); y = (of_char b :: nat); z = (of_char c :: nat) in
      [encode6 (x div 4), encode6 ((x mod 4) * 16 + y div 16),
       encode6 ((y mod 16) * 4 + z div 64), encode6 (z mod 64)] @ EncodeToString rest)"

text \<open>
  \<^verbatim>\<open>DecodeString\<close>: carriage returns and line feeds are skipped wherever they stand;
  what remains is read in groups of four characters. Padding is required and may
  only close the last group; the unused low bits of a padded group are not checked
  (the encoding is not strict). Every failure of the library is the value \<open>None\<close>.
\<close>

fun decode_quanta :: "string \<Rightarrow> string option" where
  "decode_quanta [] = Some []"
| "decode_quanta (c1 # c2 # c3 # c4 # rest) =
     (case (decode6 c1, decode6 c2) of
        (Some p, Some q) \<Rightarrow>
          if rest = [] \<and> c3 = CHR ''='' \<and> c4 = CHR ''=''
          then Some [char_of (p * 4 + q div 16)]
          else (case decode6 c3 of
             None \<Rightarrow> None
           | Some r \<Rightarrow>
               if rest = [] \<and> c4 = CHR ''=''
               then Some [char_of (p * 4 + q div 16), char_of ((q mod 16) * 16 + r div 4)]
               else (case decode6 c4 of
                  None \<Rightarrow> None
                | Some s \<Rightarrow>
                    (case decode_quanta rest of
                       None \<Rightarrow> None
                     | Some out \<Rightarrow>
                         Some (char_of (p * 4 + q div 16) #
                               char_of ((q mod 16) * 16 + r div 4) #
                               char_of ((r mod 4) * 64 + s) # out))))
      | _ \<Rightarrow> None)"
| "decode_quanta _ = None"

definition DecodeString :: "string \<Rightarrow> string option" where
  "DecodeString s = decode_quanta (filter (\<lambda>c. c \<noteq> CHR 0x0D \<and> c \<noteq> CHR 0x0A) s)"

text \<open>\<^verbatim>\<open>EncodedLen\<close> of the padded encoding, and \<^verbatim>\<open>sha256.Size\<close>.\<close>

definition EncodedLen :: "nat \<Rightarrow> nat" where
  "EncodedLen n = (n + 2) div 3 * 4"

definition sha256_Size :: nat where
  "sha256_Size = 32"

subsection \<open>Hexadecimal (\<^verbatim>\<open>hex.DecodeString\<close>)\<close>

text \<open>
  Two digits a byte, both cases of the letters accepted; an odd length or a character
  that is no digit is an error (\<open>None\<close>).
\<close>

definition fromHexChar :: "char \<Rightarrow> nat option" where
  "fromHexChar c =
     (let k = (of_char c :: nat) in
      if 48 \<le> k \<and> k \<le> 57 then Some (k - 48)
      else if 97 \<le> k \<and> k \<le> 102 then Some (k - 97 + 10)
      else if 65 \<le> k \<and> k \<le> 70 then Some (k - 65 + 10)
      else None)"

fun hex_DecodeString :: "string \<Rightarrow> string option" where
  "hex_DecodeString [] = Some []"
| "hex_DecodeString [c] = None"
| "hex_DecodeString (a # b # rest) =
     (case (fromHexChar a, fromHexChar b) of
        (Some x, Some y) \<Rightarrow>
          (case hex_DecodeString rest of
             None \<Rightarrow> None
           | Some out \<Rightarrow> Some (char_of (x * 16 + y) # out))
      | _ \<Rightarrow> None)"

subsection \<open>Strings (\<^verbatim>\<open>strings.TrimSpace\<close>, \<^verbatim>\<open>strings.ToLower\<close>)\<close>

text \<open>
  \<^verbatim>\<open>TrimSpace\<close> removes leading and trailing white space as Unicode defines it. A string
  is its UTF-8 bytes here, so the white-space characters are the six ASCII ones, two
  characters of two bytes (U+0085, U+00A0) and those of three bytes (U+1680,
  U+2000 to U+200A, U+2028, U+2029, U+202F, U+205F, U+3000).
\<close>

definition is_ascii_space :: "char \<Rightarrow> bool" where
  "is_ascii_space c = (c = CHR 0x09 \<or> c = CHR 0x0A \<or> c = CHR 0x0B \<or> c = CHR 0x0C \<or>
                       c = CHR 0x0D \<or> c = CHR 0x20)"

definition is_space2 :: "char \<Rightarrow> char \<Rightarrow> bool" where
  "is_space2 c d = (c = CHR 0xC2 \<and> (d = CHR 0x85 \<or> d = CHR 0xA0))"

definition is_space3 :: "char \<Rightarrow> char \<Rightarrow> char \<Rightarrow> bool" where
  "is_space3 c d e =
     ((c = CHR 0xE1 \<and> d = CHR 0x9A \<and> e = CHR 0x80) \<or>
      (c = CHR 0xE2 \<and> d = CHR 0x80 \<and>
         ((0x80 \<le> (of_char e :: nat) \<and> (of_char e :: nat) \<le> 0x8A) \<or>
          e = CHR 0xA8 \<or> e = CHR 0xA9 \<or> e = CHR 0xAF)) \<or>
      (c = CHR 0xE2 \<and> d = CHR 0x81 \<and> e = CHR 0x9F) \<or>
      (c = CHR 0xE3 \<and> d = CHR 0x80 \<and> e = CHR 0x80))"

fun TrimLeft_space :: "string \<Rightarrow> string" where
  "TrimLeft_space [] = []"
| "TrimLeft_space (c # cs) =
     (if is_ascii_space c then TrimLeft_space cs
      else (case cs of
         [] \<Rightarrow> [c]
       | d # ds \<Rightarrow>
           if is_space2 c d then TrimLeft_space ds
           else (case ds of
              [] \<Rightarrow> c # cs
            | e # es \<Rightarrow> if is_space3 c d e then TrimLeft_space es else c # cs)))"

text \<open>The same from the right end, on the reversed string.\<close>

fun TrimRight_space_rev :: "string \<Rightarrow> string" where
  "TrimRight_space_rev [] = []"
| "TrimRight_space_rev (e # cs) =
     (if is_ascii_space e then TrimRight_space_rev cs
      else (case cs of
         [] \<Rightarrow> [e]
       | d # ds \<Rightarrow>
           if is_space2 d e then TrimRight_space_rev ds
           else (case ds of
              [] \<Rightarrow> e # cs
            | c # es \<Rightarrow> if is_space3 c d e then TrimRight_space_rev es else e # cs)))"

definition TrimSpace :: "string \<Rightarrow> string" where
  "TrimSpace s = rev (TrimRight_space_rev (rev (TrimLeft_space s)))"

text \<open>
  \<^verbatim>\<open>ToLower\<close> on the ASCII letters. The library also maps letters outside ASCII; none
  of them becomes a hexadecimal digit, and the handler below only passes the result
  to the hexadecimal decoder, which refuses every byte that is no digit.
\<close>

definition lower :: "char \<Rightarrow> char" where
  "lower c = (if 65 \<le> (of_char c :: nat) \<and> (of_char c :: nat) \<le> 90
              then char_of ((of_char c :: nat) + 32) else c)"

definition ToLower :: "string \<Rightarrow> string" where
  "ToLower s = map lower s"

section \<open>The key store (enclaveKeys)\<close>

text \<open>
  The struct of the source, without its embedded \<^verbatim>\<open>sync.RWMutex\<close>: the model is
  sequential, every method runs from lock to unlock without interleaving.
\<close>

record enclaveKeys =
  NitridingKey :: bytes
  NitridingCert :: bytes
  AppKeys :: bytes

definition equal :: "enclaveKeys \<Rightarrow> enclaveKeys \<Rightarrow> bool" where
  "equal e1 e2 =
     (bytes_Equal (NitridingCert e1) (NitridingCert e2) \<and>
      bytes_Equal (NitridingKey e1) (NitridingKey e2) \<and>
      bytes_Equal (AppKeys e1) (AppKeys e2))"

definition setAppKeys :: "enclaveKeys \<Rightarrow> bytes \<Rightarrow> enclaveKeys" where
  "setAppKeys e appKeys = e\<lparr>AppKeys := appKeys\<rparr>"

definition setNitridingKeys :: "enclaveKeys \<Rightarrow> bytes \<Rightarrow> bytes \<Rightarrow> enclaveKeys" where
  "setNitridingKeys e key cert = e\<lparr>NitridingKey := key, NitridingCert := cert\<rparr>"

text \<open>\<open>set\<close> and \<open>get\<close> of the source; the names clash with HOL's \<open>set\<close>.\<close>

definition set_keys :: "enclaveKeys \<Rightarrow> enclaveKeys \<Rightarrow> enclaveKeys" where
  "set_keys e newKeys =
     e\<lparr>NitridingKey := NitridingKey newKeys,
       NitridingCert := NitridingCert newKeys,
       AppKeys := AppKeys newKeys\<rparr>"

definition get_keys :: "enclaveKeys \<Rightarrow> enclaveKeys" where
  "get_keys e =
     \<lparr>NitridingKey = NitridingKey e,
      NitridingCert = NitridingCert e,
      AppKeys = AppKeys e\<rparr>"

definition getAppKeys :: "enclaveKeys \<Rightarrow> bytes" where
  "getAppKeys e = AppKeys e"

section \<open>Auxiliary information\<close>

text \<open>
  Modelled from the spec: the type \<^verbatim>\<open>nonce\<close>, the constant \<^verbatim>\<open>nonceLen\<close> and the method
  \<^verbatim>\<open>B64\<close> are declared in a file of the repository that is not embedded here.
  The specification describes a nonce as a byte sequence of \<^verbatim>\<open>nonceLen\<close>
  bytes that is compared and cached by its Base64 text. The attesters test
  \<^verbatim>\<open>len(...) == nonceLen\<close> at run time and convert byte slices to nonces, so a nonce is a
  byte slice here, of any length; \<^verbatim>\<open>nonceLen\<close> is a parameter of every function that
  uses it, and \<open>B64\<close> is the standard Base64 text of the bytes.
\<close>

type_synonym nonce = bytes

definition B64 :: "nonce \<Rightarrow> string" where
  "B64 n = EncodeToString (contents n)"

record workerAuxInfo =
  WorkersNonce :: nonce
  LeadersNonce :: nonce
  PublicKey :: bytes

record leaderAuxInfo =
  WorkersNonce :: nonce
  EnclaveKeys :: bytes

text \<open>
  \<^verbatim>\<open>auxInfo\<close> is the empty interface. Its dynamic values that the attesters tell apart
  are the two structs, pointers to them (what \<^verbatim>\<open>verifyAttstn\<close> returns) and \<^verbatim>\<open>nil\<close>; a
  pointer is given by the struct it points to.
\<close>

datatype auxInfo =
    AuxNil
  | WorkerVal workerAuxInfo
  | LeaderVal leaderAuxInfo
  | WorkerPtr workerAuxInfo
  | LeaderPtr leaderAuxInfo

text \<open>
  Errors as values. The first four are the errors of the libraries and of the limit
  reader that the code tells apart or passes on, \<open>ErrorString\<close> is \<^verbatim>\<open>errors.New\<close> and
  \<open>Errorf\<close> is \<^verbatim>\<open>fmt.Errorf\<close> wrapping an error with \<^verbatim>\<open>%w\<close>.
\<close>

datatype error =
    SyntaxError
  | UnmarshalTypeError
  | CorruptInputError
  | ErrTooMuchToRead
  | ErrorString string
  | Errorf string error

fun errors_Is :: "error \<Rightarrow> error \<Rightarrow> bool" where
  "errors_Is (Errorf p e) target = (Errorf p e = target \<or> errors_Is e target)"
| "errors_Is e target = (e = target)"

section \<open>JSON (\<^verbatim>\<open>encoding/json\<close>)\<close>

text \<open>
  A document handed to the dummy attester is a byte string that the decoder first
  parses. The model starts from the result of parsing: \<open>None\<close> for bytes that are no
  JSON text, \<open>Some v\<close> for the value they denote. The members of an object are kept
  in the order of the text, duplicates included, since the decoder assigns them one
  after the other. A number carries its literal.
\<close>

datatype json =
    JNull
  | JBool bool
  | JNumber string
  | JString string
  | JArray "json list"
  | JObject "(string \<times> json) list"

type_synonym document = "json option"

text \<open>
  Decoding into a byte slice: \<^verbatim>\<open>null\<close> gives the nil slice, a string is read as
  Base64, an array is read element by element as numbers from 0 to 255, anything
  else is a type error. A \<^verbatim>\<open>null\<close> element leaves the byte that the slice held at that
  index (zero where the slice held none).
\<close>

definition is_digit :: "char \<Rightarrow> bool" where
  "is_digit c = (48 \<le> (of_char c :: nat) \<and> (of_char c :: nat) \<le> 57)"

definition digits_value :: "string \<Rightarrow> nat" where
  "digits_value t = foldl (\<lambda>n c. 10 * n + (of_char c - 48)) 0 t"

definition decode_uint8 :: "json \<Rightarrow> char \<Rightarrow> error + char" where
  "decode_uint8 v cur =
     (case v of
        JNull \<Rightarrow> Inr cur
      | JNumber t \<Rightarrow>
          if t \<noteq> [] \<and> list_all is_digit t \<and> digits_value t < 256
          then Inr (char_of (digits_value t))
          else Inl UnmarshalTypeError
      | _ \<Rightarrow> Inl UnmarshalTypeError)"

fun decode_elems :: "json list \<Rightarrow> string \<Rightarrow> error + string" where
  "decode_elems [] old = Inr []"
| "decode_elems (v # vs) old =
     (case decode_uint8 v (case old of [] \<Rightarrow> CHR 0x00 | c # _ \<Rightarrow> c) of
        Inl e \<Rightarrow> Inl e
      | Inr c \<Rightarrow>
          (case decode_elems vs (tl old) of
             Inl e \<Rightarrow> Inl e
           | Inr cs \<Rightarrow> Inr (c # cs)))"

definition decode_bytes :: "json \<Rightarrow> bytes \<Rightarrow> error + bytes" where
  "decode_bytes v cur =
     (case v of
        JNull \<Rightarrow> Inr None
      | JString s \<Rightarrow>
          (case DecodeString s of
             None \<Rightarrow> Inl CorruptInputError
           | Some b \<Rightarrow> Inr (Some b))
      | JArray vs \<Rightarrow>
          (case decode_elems vs (contents cur) of
             Inl e \<Rightarrow> Inl e
           | Inr cs \<Rightarrow> Inr (Some cs))
      | _ \<Rightarrow> Inl UnmarshalTypeError)"

text \<open>
  A member sets the field whose tag is its key, or whose tag equals the key when
  letter case is ignored. The folding of the library maps the ASCII letters to
  upper case and two characters outside ASCII to ASCII letters (U+017F to S, U+212A
  to K); other characters never fold to an ASCII letter, so they are left alone.
\<close>

definition upper :: "char \<Rightarrow> char" where
  "upper c = (if 97 \<le> (of_char c :: nat) \<and> (of_char c :: nat) \<le> 122
              then char_of ((of_char c :: nat) - 32) else c)"

fun foldName :: "string \<Rightarrow> string" where
  "foldName [] = []"
| "foldName (c # cs) =
     (case cs of
        [] \<Rightarrow> [upper c]
      | d # ds \<Rightarrow>
          if c = CHR 0xC5 \<and> d = CHR 0xBF then CHR ''S'' # foldName ds
          else (case ds of
             [] \<Rightarrow> upper c # foldName cs
           | e # es \<Rightarrow>
               if c = CHR 0xE2 \<and> d = CHR 0x84 \<and> e = CHR 0xAA then CHR ''K'' # foldName es
               else upper c # foldName cs))"

definition field_matches :: "string \<Rightarrow> string \<Rightarrow> bool" where
  "field_matches key name = (key = name \<or> foldName key = foldName name)"

text \<open>
  \<^verbatim>\<open>json.Unmarshal\<close> into a struct, given the function that sets one field from one
  member: bytes that are no JSON text are a syntax error, \<^verbatim>\<open>null\<close> leaves the struct as
  it is, an object sets its members in order, every other value is a type error.
  The library goes on decoding after a type error and reports it at the end; the
  callers below drop the struct whenever an error is reported, so the first error
  ends the decoding here.
\<close>

fun object_into ::
  "(string \<Rightarrow> json \<Rightarrow> 's \<Rightarrow> error + 's) \<Rightarrow> (string \<times> json) list \<Rightarrow> 's \<Rightarrow> error + 's" where
  "object_into setf [] s = Inr s"
| "object_into setf ((k, v) # kvs) s =
     (case setf k v s of
        Inl e \<Rightarrow> Inl e
      | Inr s' \<Rightarrow> object_into setf kvs s')"

definition Unmarshal ::
  "(string \<Rightarrow> json \<Rightarrow> 's \<Rightarrow> error + 's) \<Rightarrow> document \<Rightarrow> 's \<Rightarrow> error + 's" where
  "Unmarshal setf doc s =
     (case doc of
        None \<Rightarrow> Inl SyntaxError
      | Some JNull \<Rightarrow> Inr s
      | Some (JObject kvs) \<Rightarrow> object_into setf kvs s
      | Some _ \<Rightarrow> Inl UnmarshalTypeError)"

text \<open>The fields of the two structs, by their \<^verbatim>\<open>json\<close> tags.\<close>

definition worker_field :: "string \<Rightarrow> json \<Rightarrow> workerAuxInfo \<Rightarrow> error + workerAuxInfo" where
  "worker_field key v w =
     (if field_matches key ''workers_nonce'' then
        (case decode_bytes v (workerAuxInfo.WorkersNonce w) of
           Inl e \<Rightarrow> Inl e
         | Inr b \<Rightarrow> Inr (w\<lparr>workerAuxInfo.WorkersNonce := b\<rparr>))
      else if field_matches key ''leaders_nonce'' then
        (case decode_bytes v (LeadersNonce w) of
           Inl e \<Rightarrow> Inl e
         | Inr b \<Rightarrow> Inr (w\<lparr>LeadersNonce := b\<rparr>))
      else if field_matches key ''public_key'' then
        (case decode_bytes v (PublicKey w) of
           Inl e \<Rightarrow> Inl e
         | Inr b \<Rightarrow> Inr (w\<lparr>PublicKey := b\<rparr>))
      else Inr w)"

definition leader_field :: "string \<Rightarrow> json \<Rightarrow> leaderAuxInfo \<Rightarrow> error + leaderAuxInfo" where
  "leader_field key v l =
     (if field_matches key ''workers_nonce'' then
        (case decode_bytes v (leaderAuxInfo.WorkersNonce l) of
           Inl e \<Rightarrow> Inl e
         | Inr b \<Rightarrow> Inr (l\<lparr>leaderAuxInfo.WorkersNonce := b\<rparr>))
      else if field_matches key ''enclave_keys'' then
        (case decode_bytes v (EnclaveKeys l) of
           Inl e \<Rightarrow> Inl e
         | Inr b \<Rightarrow> Inr (l\<lparr>EnclaveKeys := b\<rparr>))
      else Inr l)"





section \<open>The dummy attester\<close>


text \<open>The zero values of \<^verbatim>\<open>var w workerAuxInfo\<close> and \<^verbatim>\<open>var l leaderAuxInfo\<close>.\<close>

definition zero_worker :: workerAuxInfo where
  "zero_worker = \<lparr>workerAuxInfo.WorkersNonce = None, LeadersNonce = None, PublicKey = None\<rparr>"

definition zero_leader :: leaderAuxInfo where
  "zero_leader = \<lparr>leaderAuxInfo.WorkersNonce = None, EnclaveKeys = None\<rparr>"

text \<open>
  \<^verbatim>\<open>verifyAttstn\<close> of the dummy attester, branch by branch. \<open>Inl\<close> is the return of
  \<^verbatim>\<open>nil\<close> with an error, \<open>Inr\<close> the return of a pointer with no error. The log lines
  are left out.
\<close>

definition verifyAttstn_dummy :: "nat \<Rightarrow> document \<Rightarrow> (string \<Rightarrow> bool) \<Rightarrow> error + auxInfo" where
  "verifyAttstn_dummy nonceLen doc isOurNonce =
     (case Unmarshal worker_field doc zero_worker of
        Inl err \<Rightarrow> Inl err
      | Inr w \<Rightarrow>
          if len (workerAuxInfo.WorkersNonce w) = nonceLen \<and> len (LeadersNonce w) = nonceLen
             \<and> PublicKey w \<noteq> None
          then
            (if \<not> isOurNonce (B64 (LeadersNonce w))
             then Inl (ErrorString ''leader nonce not in cache'')
             else Inr (WorkerPtr w))
          else
            (case Unmarshal leader_field doc zero_leader of
               Inl err \<Rightarrow> Inl err
             | Inr l \<Rightarrow>
                 if len (leaderAuxInfo.WorkersNonce l) = nonceLen \<and> EnclaveKeys l \<noteq> None
                 then
                   (if \<not> isOurNonce (B64 (leaderAuxInfo.WorkersNonce l))
                    then Inl (ErrorString ''worker nonce not in cache'')
                    else Inr (LeaderPtr l))
                 else Inl (ErrorString ''invalid auxiliary information'')))"

section \<open>The Nitro attester\<close>

text \<open>
  The hypervisor and the verification library are outside the repository. What the
  attester reads of a verified document are four fields; the registers are a table
  from index to value. \<^verbatim>\<open>nitrite.Verify\<close>, \<^verbatim>\<open>getPCRValues\<close> and \<^verbatim>\<open>arePCRsIdentical\<close> are
  parameters of the verification, the session of the security module and its
  \<^verbatim>\<open>Send\<close> are parameters of the creation.
\<close>

type_synonym pcrs = "(nat \<times> string) list"

record nitrite_Document =
  PCRs :: pcrs
  PublicKey :: bytes
  UserData :: bytes
  Nonce :: bytes

definition errStr :: string where
  "errStr = ''error verifying attestation document''"

definition verifyAttstn_nitro ::
  "(string \<Rightarrow> error + nitrite_Document) \<Rightarrow> (error + pcrs) \<Rightarrow> (pcrs \<Rightarrow> pcrs \<Rightarrow> bool) \<Rightarrow>
   string \<Rightarrow> (string \<Rightarrow> bool) \<Rightarrow> error + auxInfo" where
  "verifyAttstn_nitro nitrite_Verify getPCRValues arePCRsIdentical doc isOurNonce =
     (case nitrite_Verify doc of
        Inl err \<Rightarrow> Inl (Errorf errStr err)
      | Inr their \<Rightarrow>
          (case getPCRValues of
             Inl err \<Rightarrow> Inl (Errorf errStr err)
           | Inr ourPCRs \<Rightarrow>
               if \<not> arePCRsIdentical ourPCRs (PCRs their)
               then Inl (ErrorString (errStr @ '': PCR values of remote enclave not identical to ours''))
               else
                 (let b64Nonce = EncodeToString (contents (nitrite_Document.Nonce their)) in
                  if \<not> isOurNonce b64Nonce
                  then Inl (ErrorString (errStr @ '': nonce '' @ b64Nonce @ '' not in cache''))
                  else if nitrite_Document.PublicKey their \<noteq> None
                  then Inr (WorkerPtr
                         \<lparr>workerAuxInfo.WorkersNonce = nitrite_Document.Nonce their,
                          LeadersNonce = nitrite_Document.UserData their,
                          PublicKey = nitrite_Document.PublicKey their\<rparr>)
                  else Inr (LeaderPtr
                         \<lparr>leaderAuxInfo.WorkersNonce = nitrite_Document.Nonce their,
                          EnclaveKeys = nitrite_Document.UserData their\<rparr>))))"

text \<open>
  The request sent to the security module, and its response: \<open>Attestation\<close> is a
  pointer (\<open>None\<close> when nil) to a struct whose only field read is the document.
\<close>

record request_Attestation =
  Nonce :: bytes
  UserData :: bytes
  PublicKey :: bytes

record nsm_Response =
  Attestation :: "bytes option"

text \<open>
  The type switch of \<^verbatim>\<open>createAttstn\<close>. It has a case for each struct passed by value
  and no default: for every other dynamic type the three variables keep their zero
  value, the nil slice.
\<close>

definition attestation_request :: "auxInfo \<Rightarrow> request_Attestation" where
  "attestation_request aux =
     (case aux of
        WorkerVal v \<Rightarrow>
          \<lparr>request_Attestation.Nonce = workerAuxInfo.WorkersNonce v,
           UserData = LeadersNonce v,
           PublicKey = workerAuxInfo.PublicKey v\<rparr>
      | LeaderVal v \<Rightarrow>
          \<lparr>request_Attestation.Nonce = leaderAuxInfo.WorkersNonce v,
           UserData = EnclaveKeys v,
           PublicKey = None\<rparr>
      | _ \<Rightarrow> \<lparr>request_Attestation.Nonce = None, UserData = None, PublicKey = None\<rparr>)"

text \<open>
  \<open>OpenDefaultSession\<close> is the error of opening the session, if any. Closing the
  session only writes a log line.
\<close>

definition createAttstn_nitro ::
  "error option \<Rightarrow> (request_Attestation \<Rightarrow> error + nsm_Response) \<Rightarrow> auxInfo \<Rightarrow> error + bytes" where
  "createAttstn_nitro OpenDefaultSession Send aux =
     (let req = attestation_request aux in
      case OpenDefaultSession of
        Some err \<Rightarrow> Inl err
      | None \<Rightarrow>
          (case Send req of
             Inl err \<Rightarrow> Inl err
           | Inr res \<Rightarrow>
               (case Attestation res of
                  None \<Rightarrow> Inl (ErrorString ''NSM device did not return an attestation'')
                | Some None \<Rightarrow> Inl (ErrorString ''NSM device did not return an attestation'')
                | Some (Some d) \<Rightarrow> Inr (Some d))))"

section \<open>The HTTP handlers\<close>

text \<open>
  What a handler writes. Some of the messages are constants declared in other
  files of the repository; a message is therefore a name, and \<open>Text\<close> carries a line the
  handler computes.
\<close>

datatype message =
    errFailedReqBody
  | errFailedGetState
  | errNoAddr
  | errBadSyncAddr
  | errHashWrongSize
  | errTooMuchToRead
  | errNoBase64
  | errProfilingSet
  | errBadForm
  | errNoNonce
  | errBadNonceFormat
  | errFailedAttestation
  | Text string

text \<open>
  An \<^verbatim>\<open>http.ResponseWriter\<close>: the status code once it is set, and the lines written.
  The first \<^verbatim>\<open>WriteHeader\<close> fixes the status, later ones are ignored; a write before
  any \<^verbatim>\<open>WriteHeader\<close> sets the status 200, and so does a handler that returns without
  writing. \<^verbatim>\<open>http.Error\<close> sets the status and writes the message.
\<close>

record ResponseWriter =
  status :: "nat option"
  written :: "message list"

definition new_response :: ResponseWriter where
  "new_response = \<lparr>status = None, written = []\<rparr>"

definition WriteHeader :: "ResponseWriter \<Rightarrow> nat \<Rightarrow> ResponseWriter" where
  "WriteHeader w code = (if status w = None then w\<lparr>status := Some code\<rparr> else w)"

definition Fprintln :: "ResponseWriter \<Rightarrow> message \<Rightarrow> ResponseWriter" where
  "Fprintln w m = (let w' = WriteHeader w 200 in w'\<lparr>written := written w' @ [m]\<rparr>)"

definition http_Error :: "ResponseWriter \<Rightarrow> message \<Rightarrow> nat \<Rightarrow> ResponseWriter" where
  "http_Error w m code = Fprintln (WriteHeader w code) m"

definition response_status :: "ResponseWriter \<Rightarrow> nat" where
  "response_status w = (case status w of None \<Rightarrow> 200 | Some code \<Rightarrow> code)"

definition StatusBadRequest :: nat where
  "StatusBadRequest = 400"

definition StatusInternalServerError :: nat where
  "StatusInternalServerError = 500"

definition StatusServiceUnavailable :: nat where
  "StatusServiceUnavailable = 503"

text \<open>
  \<^verbatim>\<open>hashHandler\<close>. The limit reader is declared in another file of the repository, so
  reading the body is a parameter: given the limit, the bytes read and the error of
  \<^verbatim>\<open>io.ReadAll\<close>, if any. The state is the array \<^verbatim>\<open>appKeyHash\<close> of the enclave; the
  handler returns it with the response. After an error other than
  \<^verbatim>\<open>errTooMuchToRead\<close> the source answers 500 and does not return: it goes on to decode
  what was read, which the second \<open>let\<close> reproduces.
\<close>

definition hashHandler ::
  "(nat \<Rightarrow> string \<times> error option) \<Rightarrow> string \<Rightarrow> ResponseWriter \<Rightarrow> string \<times> ResponseWriter" where
  "hashHandler ReadAll_limited appKeyHash w =
     (let maxReadLen = EncodedLen sha256_Size + 1;
          (body, err) = ReadAll_limited maxReadLen
      in if (case err of None \<Rightarrow> False | Some e \<Rightarrow> errors_Is e ErrTooMuchToRead)
         then (appKeyHash, http_Error w errTooMuchToRead StatusBadRequest)
         else
           (let w = (if err \<noteq> None then http_Error w errFailedReqBody StatusInternalServerError
                     else w)
            in case DecodeString (TrimSpace body) of
                 None \<Rightarrow> (appKeyHash, http_Error w errNoBase64 StatusBadRequest)
               | Some keyHash \<Rightarrow>
                   if length keyHash \<noteq> sha256_Size
                   then (appKeyHash, http_Error w errHashWrongSize StatusBadRequest)
                   else (copy appKeyHash keyHash, w)))"

text \<open>
  \<^verbatim>\<open>attestationHandler\<close>. Of the request the handler uses the error of \<^verbatim>\<open>ParseForm\<close>, if
  any, and the query of the URL, a table from a name to its values. The function
  \<^verbatim>\<open>attest\<close> and the serialized hashes are declared in other files and are
  parameters.
\<close>

record Request =
  ParseForm :: "error option"
  Query :: "string \<Rightarrow> string list option"

definition Values_Get :: "(string \<Rightarrow> string list option) \<Rightarrow> string \<Rightarrow> string" where
  "Values_Get q key = (case q key of None \<Rightarrow> [] | Some [] \<Rightarrow> [] | Some (v # _) \<Rightarrow> v)"

definition attestationHandler ::
  "bool \<Rightarrow> bytes \<Rightarrow> (bytes \<Rightarrow> bytes \<Rightarrow> bytes \<Rightarrow> error + bytes) \<Rightarrow>
   ResponseWriter \<Rightarrow> Request \<Rightarrow> ResponseWriter" where
  "attestationHandler useProfiling hashes_Serialize attest w r =
     (if useProfiling then http_Error w errProfilingSet StatusServiceUnavailable
      else if ParseForm r \<noteq> None then http_Error w errBadForm StatusBadRequest
      else
        (let nonce = Values_Get (Query r) ''nonce'' in
         if nonce = [] then http_Error w errNoNonce StatusBadRequest
         else
           (let nonce = ToLower nonce in
            case hex_DecodeString nonce of
              None \<Rightarrow> http_Error w errBadNonceFormat StatusBadRequest
            | Some rawNonce \<Rightarrow>
                (case attest (Some rawNonce) hashes_Serialize None of
                   Inl err \<Rightarrow> http_Error w errFailedAttestation StatusInternalServerError
                 | Inr rawDoc \<Rightarrow> Fprintln w (Text (EncodeToString (contents rawDoc)))))))"

section \<open>Notions used in the statements\<close>

text \<open>
  The structural tests of the dummy attester, on a decoded struct and on a document:
  a document has the worker shape when it decodes into a worker struct that passes
  the first test of \<^verbatim>\<open>verifyAttstn\<close>, and the leader shape likewise with the second.
\<close>

definition wellformed_worker :: "nat \<Rightarrow> workerAuxInfo \<Rightarrow> bool" where
  "wellformed_worker nonceLen w =
     (len (workerAuxInfo.WorkersNonce w) = nonceLen \<and> len (LeadersNonce w) = nonceLen \<and>
      workerAuxInfo.PublicKey w \<noteq> None)"

definition wellformed_leader :: "nat \<Rightarrow> leaderAuxInfo \<Rightarrow> bool" where
  "wellformed_leader nonceLen l =
     (len (leaderAuxInfo.WorkersNonce l) = nonceLen \<and> EnclaveKeys l \<noteq> None)"



text \<open>A status from 400 to 499 is a client error.\<close>

definition client_error :: "nat \<Rightarrow> bool" where
  "client_error code = (400 \<le> code \<and> code < 500)"

text \<open>
  A body is a valid hash when, white space trimmed, it is the Base64 text of exactly
  \<^verbatim>\<open>sha256.Size\<close> bytes. Reading failed when it ended with an error other than
  \<^verbatim>\<open>errTooMuchToRead\<close>.
\<close>

definition valid_hash :: "string \<Rightarrow> bool" where
  "valid_hash body =
     (case DecodeString (TrimSpace body) of
        None \<Rightarrow> False
      | Some keyHash \<Rightarrow> length keyHash = sha256_Size)"

definition read_failed :: "error option \<Rightarrow> bool" where
  "read_failed err =
     (case err of None \<Rightarrow> False | Some e \<Rightarrow> \<not> errors_Is e ErrTooMuchToRead)"

text \<open>The nonce parameter of a request, and the request with three nil slices.\<close>

definition nonce_of :: "Request \<Rightarrow> string" where
  "nonce_of r = Values_Get (Query r) ''nonce''"

definition nil_request :: request_Attestation where
  "nil_request = \<lparr>request_Attestation.Nonce = None, UserData = None, PublicKey = None\<rparr>"

section \<open>Concrete inputs\<close>

text \<open>
  A verified document of a worker (nonce of twenty bytes \<^verbatim>\<open>W\<close>, the leader's nonce of
  twenty bytes \<^verbatim>\<open>L\<close> as user data, a public key), a document with the members of both
  structs, and a small leader and worker struct.
\<close>

definition worker_document :: nitrite_Document where
  "worker_document =
     \<lparr>PCRs = [(0, ''image'')],
      PublicKey = Some ''pk'',
      UserData = Some ''LLLLLLLLLLLLLLLLLLLL'',
      Nonce = Some ''WWWWWWWWWWWWWWWWWWWW''\<rparr>"




section \<open>Decoding what was encoded\<close>

subsection \<open>Base64\<close>











subsection \<open>JSON\<close>








subsection \<open>What a successful verification went through\<close>

lemma verifyAttstn_dummy_cases:
  "verifyAttstn_dummy nonceLen doc isOurNonce = Inr aux \<Longrightarrow>
     (\<exists>w. aux = WorkerPtr w \<and> Unmarshal worker_field doc zero_worker = Inr w \<and>
          wellformed_worker nonceLen w \<and> isOurNonce (B64 (LeadersNonce w))) \<or>
     (\<exists>w l. aux = LeaderPtr l \<and> Unmarshal worker_field doc zero_worker = Inr w \<and>
          \<not> wellformed_worker nonceLen w \<and>
          Unmarshal leader_field doc zero_leader = Inr l \<and>
          wellformed_leader nonceLen l \<and> isOurNonce (B64 (leaderAuxInfo.WorkersNonce l)))"
  unfolding verifyAttstn_dummy_def wellformed_worker_def wellformed_leader_def
  by (auto split: sum.splits if_splits)


lemma verifyAttstn_dummy_checks_partner_nonce:
  "verifyAttstn_dummy nonceLen doc isOurNonce = Inr aux \<Longrightarrow>
     (\<exists>w. aux = WorkerPtr w \<and> isOurNonce (B64 (LeadersNonce w))) \<or>
     (\<exists>l. aux = LeaderPtr l \<and> isOurNonce (B64 (leaderAuxInfo.WorkersNonce l)))"
  by (drule verifyAttstn_dummy_cases) blast

subsection \<open>Responses\<close>

lemma http_Error_fresh:
  "response_status (http_Error new_response m code) = code"
  by (simp add: http_Error_def Fprintln_def WriteHeader_def new_response_def response_status_def
      Let_def)

lemma http_Error_twice:
  "response_status (http_Error (http_Error new_response m code) m' code') = code"
  by (simp add: http_Error_def Fprintln_def WriteHeader_def new_response_def response_status_def
      Let_def)

lemma response_status_fresh: "response_status new_response = 200"
  by (simp add: response_status_def new_response_def)

lemma attestation_request_nil:
  "attestation_request AuxNil =
     \<lparr>request_Attestation.Nonce = None, UserData = None, PublicKey = None\<rparr>"
  "attestation_request (WorkerPtr w) =
     \<lparr>request_Attestation.Nonce = None, UserData = None, PublicKey = None\<rparr>"
  "attestation_request (LeaderPtr l) =
     \<lparr>request_Attestation.Nonce = None, UserData = None, PublicKey = None\<rparr>"
  by (simp_all add: attestation_request_def)

section \<open>Properties of the key store\<close>

text \<open>
  C6. For every store \<open>e\<close> and every bundle \<open>k\<close>, \<open>get\<close> after \<open>set k\<close> returns a
  bundle whose three fields are those of \<open>k\<close>, nil-ness included: \<open>set\<close> replaces
  all three fields, whatever the store held before.
\<close>

theorem set_then_get:
  "NitridingKey (get_keys (set_keys e k)) = NitridingKey k \<and>
   NitridingCert (get_keys (set_keys e k)) = NitridingCert k \<and>
   AppKeys (get_keys (set_keys e k)) = AppKeys k \<and>
   equal (get_keys (set_keys e k)) k"
  by (simp add: get_keys_def set_keys_def equal_def bytes_Equal_def)

text \<open>
  C7. \<open>equal\<close> is reflexive and symmetric, and it is false as soon as one of the
  three fields differs in its bytes between the two bundles.
\<close>

theorem equal_refl_sym_differs:
  "equal a a \<and>
   (equal a b = equal b a) \<and>
   (contents (NitridingKey a) \<noteq> contents (NitridingKey b) \<or>
    contents (NitridingCert a) \<noteq> contents (NitridingCert b) \<or>
    contents (AppKeys a) \<noteq> contents (AppKeys b) \<longrightarrow> \<not> equal a b)"
  by (auto simp: equal_def bytes_Equal_def)

text \<open>Two bundles that differ in the case of one letter of the key are not equal.\<close>

theorem equal_refl_sym_differs_witness:
  "contents (NitridingKey \<lparr>NitridingKey = Some ''k'', NitridingCert = None, AppKeys = Some ''a''\<rparr>)
      \<noteq> contents (NitridingKey \<lparr>NitridingKey = Some ''K'', NitridingCert = Some [], AppKeys = Some ''a''\<rparr>) \<and>
   \<not> equal \<lparr>NitridingKey = Some ''k'', NitridingCert = None, AppKeys = Some ''a''\<rparr>
            \<lparr>NitridingKey = Some ''K'', NitridingCert = Some [], AppKeys = Some ''a''\<rparr>"
proof -
  let ?a = "\<lparr>NitridingKey = Some ''k'', NitridingCert = None, AppKeys = Some ''a''\<rparr>"
  let ?b = "\<lparr>NitridingKey = Some ''K'', NitridingCert = Some [], AppKeys = Some ''a''\<rparr>"
  have differs: "contents (NitridingKey ?a) \<noteq> contents (NitridingKey ?b)"
    by (simp add: contents_def)
  with equal_refl_sym_differs [of ?a ?b] have "\<not> equal ?a ?b"
    by blast
  with differs show ?thesis
    by blast
qed

section \<open>Properties of the attesters\<close>



text \<open>
  C2. The claim is that both attesters apply \<open>isOurNonce\<close> to the partner nonce of the
  payload: the leader's nonce of a Worker payload, the worker's nonce of a Leader
  payload. The dummy attester does (\<open>verifyAttstn_dummy_checks_partner_nonce\<close>). The
  Nitro attester applies the predicate to the nonce field of the document, which
  \<open>createAttstn\<close> fills with the worker's own nonce for both shapes, and never to the
  user data, where the leader's nonce of a Worker payload travels. At a verified
  worker document with worker's nonce \<^verbatim>\<open>W...W\<close> and leader's nonce \<^verbatim>\<open>L...L\<close>: a verifier
  that knows only the worker's nonce accepts the document as a Worker payload, and
  the leader that issued \<^verbatim>\<open>L...L\<close> and knows only that nonce refuses it.
\<close>

theorem verifyAttstn_nitro_skips_leaders_nonce:
  "verifyAttstn_nitro (\<lambda>doc. Inr worker_document) (Inr [(0, ''image'')]) (=) ''signed''
      (\<lambda>s. s = B64 (Some ''WWWWWWWWWWWWWWWWWWWW'')) =
     Inr (WorkerPtr \<lparr>workerAuxInfo.WorkersNonce = Some ''WWWWWWWWWWWWWWWWWWWW'',
            LeadersNonce = Some ''LLLLLLLLLLLLLLLLLLLL'', PublicKey = Some ''pk''\<rparr>) \<and>
   B64 (Some ''LLLLLLLLLLLLLLLLLLLL'') \<noteq> B64 (Some ''WWWWWWWWWWWWWWWWWWWW'') \<and>
   isl (verifyAttstn_nitro (\<lambda>doc. Inr worker_document) (Inr [(0, ''image'')]) (=) ''signed''
      (\<lambda>s. s = B64 (Some ''LLLLLLLLLLLLLLLLLLLL'')))"
  by (simp add: verifyAttstn_nitro_def worker_document_def B64_def contents_def Let_def
      encode6_def)









text \<open>
  C10. \<open>createAttstn\<close> of the Nitro attester, given a pointer to a worker or leader
  struct (or nil), reports no error for the shape: the type switch matches no case,
  the request carries a nil nonce, nil user data and a nil public key, and the
  result is whatever the security module answers to that request. A module that
  returns the nonce it was sent returns the empty document.
\<close>

theorem createAttstn_nitro_unrecognized:
  "attestation_request (WorkerPtr w) = nil_request \<and>
   attestation_request (LeaderPtr l) = nil_request \<and>
   attestation_request AuxNil = nil_request \<and>
   createAttstn_nitro None Send (WorkerPtr w) =
     (case Send nil_request of
        Inl err \<Rightarrow> Inl err
      | Inr res \<Rightarrow>
          (case Attestation res of
             None \<Rightarrow> Inl (ErrorString ''NSM device did not return an attestation'')
           | Some None \<Rightarrow> Inl (ErrorString ''NSM device did not return an attestation'')
           | Some (Some d) \<Rightarrow> Inr (Some d))) \<and>
   createAttstn_nitro None Send (LeaderPtr l) = createAttstn_nitro None Send (WorkerPtr w) \<and>
   createAttstn_nitro None Send AuxNil = createAttstn_nitro None Send (WorkerPtr w) \<and>
   createAttstn_nitro None
     (\<lambda>req. Inr \<lparr>Attestation = Some (Some (contents (request_Attestation.Nonce req)))\<rparr>)
     (WorkerPtr w) = Inr (Some [])"
  by (simp add: createAttstn_nitro_def attestation_request_nil nil_request_def Let_def contents_def)

section \<open>Properties of the handlers\<close>

text \<open>
  C8. When the body is read without an error other than \<^verbatim>\<open>errTooMuchToRead\<close>, a body
  that is not valid Base64 (white space trimmed) or does not decode to exactly 32
  bytes is answered with a client error, and \<open>appKeyHash\<close> is unchanged. However the
  read ended, a body that is no valid hash leaves \<open>appKeyHash\<close> unchanged, and
  \<open>appKeyHash\<close> only ever changes to the 32 bytes decoded from the body. A valid hash
  read without error is copied into \<open>appKeyHash\<close> and answered with 200. A read that
  failed is answered with 500.
\<close>

theorem hashHandler_rejects_malformed:
  assumes "ReadAll_limited (EncodedLen sha256_Size + 1) = (body, err)"
    and "hashHandler ReadAll_limited appKeyHash new_response = (appKeyHash', w')"
  shows "(\<not> valid_hash body \<longrightarrow> appKeyHash' = appKeyHash) \<and>
    (\<not> valid_hash body \<and> \<not> read_failed err \<longrightarrow> client_error (response_status w')) \<and>
    (appKeyHash' \<noteq> appKeyHash \<longrightarrow>
       (\<exists>keyHash. DecodeString (TrimSpace body) = Some keyHash \<and> length keyHash = sha256_Size \<and>
          appKeyHash' = copy appKeyHash keyHash)) \<and>
    (valid_hash body \<and> err = None \<longrightarrow>
       appKeyHash' = copy appKeyHash (the (DecodeString (TrimSpace body))) \<and>
       response_status w' = 200) \<and>
    (read_failed err \<longrightarrow> response_status w' = 500)"
  using assms
  by (auto simp: hashHandler_def Let_def valid_hash_def read_failed_def http_Error_fresh
      http_Error_twice response_status_fresh StatusBadRequest_def StatusInternalServerError_def
      client_error_def split: option.splits if_splits)

text \<open>
  A body that is the Base64 text of three bytes, read without error: answered with
  a client error, the stored hash untouched.
\<close>

theorem hashHandler_rejects_malformed_witness:
  "\<not> valid_hash ''Zm9v'' \<and> \<not> read_failed None \<and>
   fst (hashHandler (\<lambda>limit. (''Zm9v'', None)) (replicate 32 CHR 0x00) new_response) =
     replicate 32 CHR 0x00 \<and>
   client_error (response_status
     (snd (hashHandler (\<lambda>limit. (''Zm9v'', None)) (replicate 32 CHR 0x00) new_response)))"
proof -
  let ?r = "\<lambda>limit::nat. (''Zm9v'', None :: error option)"
  let ?h = "replicate 32 CHR 0x00"
  have bad: "\<not> valid_hash ''Zm9v''"
    by (simp add: valid_hash_def TrimSpace_def is_ascii_space_def is_space2_def is_space3_def
        DecodeString_def decode6_def sha256_Size_def)
  have ok: "\<not> read_failed None"
    by (simp add: read_failed_def)
  have r: "?r (EncodedLen sha256_Size + 1) = (''Zm9v'', None)"
    by simp
  have p: "hashHandler ?r ?h new_response =
      (fst (hashHandler ?r ?h new_response), snd (hashHandler ?r ?h new_response))"
    by simp
  from bad ok hashHandler_rejects_malformed [OF r p]
  show ?thesis by blast
qed

text \<open>
  A request whose body cannot be read to its end (the connection breaks after one
  byte that is no Base64): the answer is 500, which is no client error.
\<close>

theorem hashHandler_failed_read:
  "response_status
     (snd (hashHandler (\<lambda>limit. (''!'', Some (ErrorString ''unexpected EOF'')))
        (replicate 32 CHR 0x00) new_response)) = 500 \<and>
   \<not> client_error 500 \<and>
   \<not> valid_hash ''!''"
  by (simp add: hashHandler_def http_Error_def Fprintln_def WriteHeader_def new_response_def
      response_status_def Let_def valid_hash_def TrimSpace_def is_ascii_space_def
      DecodeString_def client_error_def StatusInternalServerError_def StatusBadRequest_def)

text \<open>
  C9. With profiling off, the attestation endpoint answers with a client error,
  without calling the attestation primitive, every request whose form does not
  parse or whose nonce parameter is missing, empty or not valid hexadecimal. It
  does not test the length of the decoded nonce: every nonce that is valid
  hexadecimal, of whatever length, is forwarded to the attestation primitive and
  answered with the Base64 text of the document, or with 500 when the primitive
  fails. With profiling on, every request is answered with 503.
\<close>

theorem attestationHandler_rejects_malformed:
  "(useProfiling \<longrightarrow>
      response_status (attestationHandler useProfiling hashes attest new_response r) = 503) \<and>
   (\<not> useProfiling \<and>
    (ParseForm r \<noteq> None \<or> nonce_of r = [] \<or> hex_DecodeString (ToLower (nonce_of r)) = None) \<longrightarrow>
      client_error (response_status (attestationHandler useProfiling hashes attest new_response r)) \<and>
      attestationHandler useProfiling hashes attest new_response r =
        attestationHandler useProfiling hashes attest' new_response r) \<and>
   (\<not> useProfiling \<and> ParseForm r = None \<and> nonce_of r \<noteq> [] \<and>
    hex_DecodeString (ToLower (nonce_of r)) = Some rawNonce \<longrightarrow>
      attestationHandler useProfiling hashes attest new_response r =
        (case attest (Some rawNonce) hashes None of
           Inl err \<Rightarrow> http_Error new_response errFailedAttestation 500
         | Inr rawDoc \<Rightarrow> Fprintln new_response (Text (EncodeToString (contents rawDoc)))))"
  by (auto simp: attestationHandler_def nonce_of_def Let_def http_Error_fresh client_error_def
      StatusBadRequest_def StatusServiceUnavailable_def StatusInternalServerError_def
      split: option.splits sum.splits)

text \<open>A nonce that is no hexadecimal text is answered with a client error.\<close>

theorem attestationHandler_rejects_malformed_witness:
  "hex_DecodeString (ToLower ''xyz'') = None \<and>
   client_error (response_status
     (attestationHandler False None (\<lambda>nonce userData publicKey. Inr nonce) new_response
        \<lparr>ParseForm = None, Query = [''nonce'' \<mapsto> [''xyz'']]\<rparr>))"
proof -
  let ?r = "\<lparr>ParseForm = None, Query = [''nonce'' \<mapsto> [''xyz'']]\<rparr>"
  have n: "nonce_of ?r = ''xyz''"
    by (simp add: nonce_of_def Values_Get_def)
  have h: "hex_DecodeString (ToLower ''xyz'') = None"
    by (simp add: ToLower_def lower_def fromHexChar_def)
  from n h attestationHandler_rejects_malformed
      [where useProfiling = False and r = ?r and hashes = None
         and attest = "\<lambda>nonce userData publicKey. Inr nonce"
         and attest' = "\<lambda>nonce userData publicKey. Inr nonce" and rawNonce = "[]"]
  show ?thesis by auto
qed

text \<open>
  Nonces of one byte and of two bytes are both forwarded and answered with 200, so
  whatever \<^verbatim>\<open>nonceLen\<close> is, a nonce of another length is accepted.
\<close>

theorem attestationHandler_forwards_any_length:
  "attestationHandler False None (\<lambda>nonce userData publicKey. Inr nonce) new_response
      \<lparr>ParseForm = None, Query = [''nonce'' \<mapsto> [''ab'']]\<rparr> =
     \<lparr>status = Some 200, written = [Text (EncodeToString [CHR 0xAB])]\<rparr> \<and>
   attestationHandler False None (\<lambda>nonce userData publicKey. Inr nonce) new_response
      \<lparr>ParseForm = None, Query = [''nonce'' \<mapsto> [''abcd'']]\<rparr> =
     \<lparr>status = Some 200, written = [Text (EncodeToString [CHR 0xAB, CHR 0xCD])]\<rparr> \<and>
   hex_DecodeString ''ab'' = Some [CHR 0xAB] \<and>
   hex_DecodeString ''abcd'' = Some [CHR 0xAB, CHR 0xCD]"
  by code_simp

end
